theory Spec2Isabelle
  imports Main "HOL-Library.Word"
begin

section \<open>The machine state the shims run in\<close>

text \<open>
  The two units of the repository are C and C++ functions that take pointers, may
  write to a stdio stream and may end the process. A call is therefore a function
  from the state of the process before the call to an outcome and the state after.

  A pointer is null or an address. Nothing in the type says that an address is
  mapped: \<open>Addr a\<close> with \<open>a\<close> outside the domain of the heap is a dangling pointer.
\<close>

datatype ptr = Null | Addr nat

text \<open>
  The process: its memory (a byte at every mapped address; the domain of \<open>heap\<close> is
  what has been allocated) and, for every stdio stream, the bytes written to it so
  far. Streams are named by their descriptor numbers.
\<close>

record world =
  heap :: "nat \<rightharpoonup> 8 word"
  written :: "nat \<Rightarrow> string"

text \<open>
  How a call ends: it returns a value to its caller; it ends the process through
  \<^verbatim>\<open>abort()\<close>; or its behaviour is undefined by the C standard. Of an undefined
  run nothing is known: it may fault, or go on and print anything. The state
  paired with \<open>Undefined\<close> is the one in which the undefined step was taken, not
  a state the process is said to reach.
\<close>

datatype 'a outcome = Returned 'a | Aborted | Undefined

type_synonym 'a prog = "world \<Rightarrow> 'a outcome \<times> world"

text \<open>\<^verbatim>\<open>return v;\<close>\<close>

definition ret :: "'a \<Rightarrow> 'a prog" where
  "ret v w = (Returned v, w)"

text \<open>
  \<^verbatim>\<open>(void)x;\<close> evaluates the parameter \<open>x\<close> (the value passed, not what it points
  to) and drops it.
\<close>

definition discard :: "'a \<Rightarrow> unit prog" where
  "discard x w = (Returned (), w)"

text \<open>
  \<^verbatim>\<open>s; t\<close> where the value of the statement \<open>s\<close> is not used: \<open>t\<close> runs in the
  state \<open>s\<close> leaves, and only if \<open>s\<close> returned.
\<close>

definition seq :: "'a prog \<Rightarrow> 'b prog \<Rightarrow> 'b prog" where
  "seq s t w =
     (case s w of
        (Returned _, w') \<Rightarrow> t w'
      | (Aborted, w') \<Rightarrow> (Aborted, w')
      | (Undefined, w') \<Rightarrow> (Undefined, w'))"

section \<open>The snapshot stubs (\<^verbatim>\<open>sqlite_snapshot_shims.c\<close>)\<close>

text \<open>
  Modelled from the spec: the header \<^verbatim>\<open>sqlite3.h\<close>, which defines the status codes,
  is not among the sources. The spec calls \<^verbatim>\<open>SQLITE_ERROR\<close> the single fixed generic
  error status; SQLite's header gives it the value 1 (and success the value 0).
  No theorem below depends on the number.
\<close>

definition SQLITE_ERROR :: int where
  "SQLITE_ERROR = 1"

text \<open>
  The four functions are compiled when \<^verbatim>\<open>SQLITE_ENABLE_SNAPSHOT\<close> is not defined.
  Each body is a list of casts to void and, but for the free function, one return.

  \<^verbatim>\<open>int sqlite3_snapshot_open(sqlite3 *db, const char *zSchema,
                            sqlite3_snapshot *pSnapshot)\<close>
\<close>

definition sqlite3_snapshot_open :: "ptr \<Rightarrow> ptr \<Rightarrow> ptr \<Rightarrow> int prog" where
  "sqlite3_snapshot_open db zSchema pSnapshot =
     seq (discard db)
       (seq (discard zSchema)
         (seq (discard pSnapshot)
           (ret SQLITE_ERROR)))"

text \<open>
  \<^verbatim>\<open>int sqlite3_snapshot_get(sqlite3 *db, const char *zSchema,
                           sqlite3_snapshot **ppSnapshot)\<close>
\<close>

definition sqlite3_snapshot_get :: "ptr \<Rightarrow> ptr \<Rightarrow> ptr \<Rightarrow> int prog" where
  "sqlite3_snapshot_get db zSchema ppSnapshot =
     seq (discard db)
       (seq (discard zSchema)
         (seq (discard ppSnapshot)
           (ret SQLITE_ERROR)))"

text \<open>\<^verbatim>\<open>void sqlite3_snapshot_free(sqlite3_snapshot *pSnapshot)\<close>\<close>

definition sqlite3_snapshot_free :: "ptr \<Rightarrow> unit prog" where
  "sqlite3_snapshot_free pSnapshot = discard pSnapshot"

text \<open>\<^verbatim>\<open>int sqlite3_snapshot_cmp(sqlite3_snapshot *p1, sqlite3_snapshot *p2)\<close>\<close>

definition sqlite3_snapshot_cmp :: "ptr \<Rightarrow> ptr \<Rightarrow> int prog" where
  "sqlite3_snapshot_cmp p1 p2 =
     seq (discard p1)
       (seq (discard p2)
         (ret SQLITE_ERROR))"

section \<open>The fatal handler (\<^verbatim>\<open>SwiftThreadingShim.cpp\<close>)\<close>

subsection \<open>The C library's formatted output\<close>

text \<open>
  The arguments a caller passes after the format, as \<^verbatim>\<open>va_arg\<close> sees them after
  the default argument promotions: an \<^verbatim>\<open>int\<close> or \<^verbatim>\<open>unsigned int\<close> (32 bits, passed
  alike; the conversion reads them as signed or unsigned), a 64-bit integer, a
  \<^verbatim>\<open>double\<close> (its 64-bit image), a pointer to a string, given by the bytes it
  points to, or any other pointer.
\<close>

datatype c_arg =
    CInt "32 word"
  | CLong "64 word"
  | CDouble "64 word"
  | CStr string
  | CPtr ptr

text \<open>What the C standard says of a library call: its result, or that its behaviour is undefined.\<close>

datatype 'a defined = Defined 'a | Undefined_behaviour

text \<open>A C string ends at its first NUL byte.\<close>

definition NUL :: char where
  "NUL = CHR 0x00"

definition c_str :: "string \<Rightarrow> string" where
  "c_str s = takeWhile (\<lambda>c. c \<noteq> NUL) s"

text \<open>Decimal and lower-case hexadecimal digits, most significant first.\<close>

fun dec_nat :: "nat \<Rightarrow> string" where
  "dec_nat n =
     (if n < 10 then [char_of (48 + n)]
      else dec_nat (n div 10) @ [char_of (48 + n mod 10)])"

definition dec_int :: "int \<Rightarrow> string" where
  "dec_int i = (if i < 0 then CHR ''-'' # dec_nat (nat (- i)) else dec_nat (nat i))"

definition hex_digit :: "nat \<Rightarrow> char" where
  "hex_digit d = (if d < 10 then char_of (48 + d) else char_of (87 + d))"

fun hex_nat :: "nat \<Rightarrow> string" where
  "hex_nat n =
     (if n < 16 then [hex_digit n]
      else hex_nat (n div 16) @ [hex_digit (n mod 16)])"

text \<open>
  Modelled from the spec: \<^verbatim>\<open>vfprintf\<close> belongs to the C library and is not among
  the sources; the spec calls what it does standard placeholder substitution. The
  conversion specifications \<^verbatim>\<open>%d %i %u %x %c %s %%\<close>, written without flags, width,
  precision or length modifier, are modelled here after the C standard (fprintf,
  7.21.6.1). What the library does with everything else is a parameter of the
  model, \<open>libc\<close> below.

  \<open>conversion c args\<close> is \<open>Some\<close> of the text that the specification \<^verbatim>\<open>%c\<close> stands
  for and of the arguments left after it, or \<open>Some\<close> of the verdict that the
  behaviour is undefined, which is the case when the specification needs an
  argument and none is left. It is \<open>None\<close> when \<open>c\<close> is not the conversion character
  of a specification listed above, or the next argument is not of the type the
  specification reads: then the library decides.
\<close>

definition conversion :: "char \<Rightarrow> c_arg list \<Rightarrow> (string \<times> c_arg list) defined option" where
  "conversion c args =
     (if c = CHR ''%'' then Some (Defined (''%'', args))
      else if c = CHR ''d'' \<or> c = CHR ''i'' then
        (case args of
           [] \<Rightarrow> Some Undefined_behaviour
         | CInt n # rest \<Rightarrow> Some (Defined (dec_int (sint n), rest))
         | _ # _ \<Rightarrow> None)
      else if c = CHR ''u'' then
        (case args of
           [] \<Rightarrow> Some Undefined_behaviour
         | CInt n # rest \<Rightarrow> Some (Defined (dec_nat (unat n), rest))
         | _ # _ \<Rightarrow> None)
      else if c = CHR ''x'' then
        (case args of
           [] \<Rightarrow> Some Undefined_behaviour
         | CInt n # rest \<Rightarrow> Some (Defined (hex_nat (unat n), rest))
         | _ # _ \<Rightarrow> None)
      else if c = CHR ''c'' then
        (case args of
           [] \<Rightarrow> Some Undefined_behaviour
         | CInt n # rest \<Rightarrow> Some (Defined ([char_of (unat n)], rest))
         | _ # _ \<Rightarrow> None)
      else if c = CHR ''s'' then
        (case args of
           [] \<Rightarrow> Some Undefined_behaviour
         | CStr s # rest \<Rightarrow> Some (Defined (c_str s, rest))
         | _ # _ \<Rightarrow> None)
      else None)"

text \<open>\<open>emit s r\<close> puts the text \<open>s\<close> in front of what the rest of the format gives.\<close>

fun emit :: "string \<Rightarrow> string defined \<Rightarrow> string defined" where
  "emit s (Defined t) = Defined (s @ t)"
| "emit s Undefined_behaviour = Undefined_behaviour"

text \<open>
  Modelled from the spec: the formatting that \<^verbatim>\<open>vfprintf\<close> of the C library does
  (standard placeholder substitution, in the spec's words), namely the bytes a
  format and its arguments stand for. The format is read up to its terminator; a
  character other than \<^verbatim>\<open>%\<close> is copied; \<^verbatim>\<open>%\<close> starts a conversion specification.
  Arguments left over when the format is exhausted are ignored.

  The parameter \<open>libc\<close> is the rest of the library: where \<^verbatim>\<open>%\<close> starts anything
  that \<open>conversion\<close> does not cover (a flag, a width, a precision, a length
  modifier, another conversion, an argument of another type, the end of the
  format), \<open>libc\<close> applied to the format from that \<^verbatim>\<open>%\<close> on and to the arguments
  not yet used is what the library prints from there to the end of the format, or
  the verdict that the behaviour is undefined.
\<close>

fun printf_format ::
  "(string \<Rightarrow> c_arg list \<Rightarrow> string defined) \<Rightarrow> string \<Rightarrow> c_arg list \<Rightarrow> string defined" where
  "printf_format libc [] args = Defined []"
| "printf_format libc (c # fmt) args =
     (if c = NUL then Defined []
      else if c \<noteq> CHR ''%'' then emit [c] (printf_format libc fmt args)
      else
        (case fmt of
           [] \<Rightarrow> libc (c # fmt) args
         | d # fmt' \<Rightarrow>
             (case conversion d args of
                Some (Defined (s, rest)) \<Rightarrow> emit s (printf_format libc fmt' rest)
              | Some Undefined_behaviour \<Rightarrow> Undefined_behaviour
              | None \<Rightarrow> libc (c # fmt) args)))"

text \<open>The descriptor of the standard error stream.\<close>

definition stderr :: nat where
  "stderr = 2"

text \<open>
  \<^verbatim>\<open>vfprintf(stream, format, args)\<close> appends the formatted bytes to the stream and
  returns their number. The stream is taken to accept every write.
\<close>

definition vfprintf ::
  "(string \<Rightarrow> c_arg list \<Rightarrow> string defined) \<Rightarrow> nat \<Rightarrow> string \<Rightarrow> c_arg list \<Rightarrow> int prog" where
  "vfprintf libc stream format args w =
     (case printf_format libc format args of
        Defined s \<Rightarrow>
          (Returned (int (length s)),
           w\<lparr>written := (written w)(stream := written w stream @ s)\<rparr>)
      | Undefined_behaviour \<Rightarrow> (Undefined, w))"

text \<open>\<^verbatim>\<open>fprintf(stream, format, ...)\<close> is \<^verbatim>\<open>vfprintf\<close> on its own variable arguments.\<close>

definition fprintf ::
  "(string \<Rightarrow> c_arg list \<Rightarrow> string defined) \<Rightarrow> nat \<Rightarrow> string \<Rightarrow> c_arg list \<Rightarrow> int prog" where
  "fprintf libc stream format args = vfprintf libc stream format args"

text \<open>\<^verbatim>\<open>abort()\<close> ends the process; control does not come back.\<close>

definition abort :: "'a prog" where
  "abort w = (Aborted, w)"

subsection \<open>The handler\<close>

text \<open>
  \<^verbatim>\<open>void fatal(const char *message, ...)\<close>, compiled on Linux, run against the C
  library \<open>libc\<close>. \<open>args\<close> is the list that \<^verbatim>\<open>va_start\<close> opens and \<^verbatim>\<open>va_end\<close>
  closes.
\<close>

definition fatal ::
  "(string \<Rightarrow> c_arg list \<Rightarrow> string defined) \<Rightarrow> string \<Rightarrow> c_arg list \<Rightarrow> unit prog" where
  "fatal libc message args =
     seq (fprintf libc stderr ''SwiftThreading fatal: '' [])
       (seq (vfprintf libc stderr message args)
         (seq (fprintf libc stderr ''\<newline>'' [])
           abort))"

text \<open>
  The run that ends in \<^verbatim>\<open>abort()\<close> after the prefix, the text \<open>s\<close> and a newline
  have been appended to the error stream of \<open>w\<close>, and nothing else has changed.
\<close>

abbreviation fatal_report :: "world \<Rightarrow> string \<Rightarrow> unit outcome \<times> world" where
  "fatal_report w s \<equiv>
     (Aborted,
      w\<lparr>written := (written w)
           (stderr := written w stderr @ ''SwiftThreading fatal: '' @ s @ ''\<newline>'')\<rparr>)"

text \<open>
  For closed examples: a library parameter that gives a meaning to nothing. The
  examples that use it stay within \<open>conversion\<close> and never consult it.
\<close>

definition unextended :: "string \<Rightarrow> c_arg list \<Rightarrow> string defined" where
  "unextended format args = Undefined_behaviour"

section \<open>Clients of the stubs\<close>

text \<open>
  A client may call the four stubs in any order with any arguments. A call history
  is a list of such calls, run first to last, each in the state the one before it
  left.
\<close>

datatype stub_call =
    Call_open ptr ptr ptr
  | Call_get ptr ptr ptr
  | Call_free ptr
  | Call_cmp ptr ptr

datatype stub_value = Status int | Nothing

fun invoke :: "stub_call \<Rightarrow> stub_value prog" where
  "invoke (Call_open db zSchema pSnapshot) w =
     (case sqlite3_snapshot_open db zSchema pSnapshot w of
        (r, w') \<Rightarrow> (map_outcome Status r, w'))"
| "invoke (Call_get db zSchema ppSnapshot) w =
     (case sqlite3_snapshot_get db zSchema ppSnapshot w of
        (r, w') \<Rightarrow> (map_outcome Status r, w'))"
| "invoke (Call_free pSnapshot) w =
     (case sqlite3_snapshot_free pSnapshot w of
        (r, w') \<Rightarrow> (map_outcome (\<lambda>_. Nothing) r, w'))"
| "invoke (Call_cmp p1 p2) w =
     (case sqlite3_snapshot_cmp p1 p2 w of
        (r, w') \<Rightarrow> (map_outcome Status r, w'))"

fun run_history :: "stub_call list \<Rightarrow> world \<Rightarrow> world" where
  "run_history [] w = w"
| "run_history (c # cs) w = run_history cs (snd (invoke c w))"

text \<open>A process that has mapped no memory and has written nothing.\<close>

definition idle_process :: world where
  "idle_process = \<lparr>heap = Map.empty, written = (\<lambda>_. [])\<rparr>"

section \<open>Running the stubs\<close>

lemma seq_discard: "seq (discard x) t w = t w"
  by (simp add: seq_def discard_def)

lemma open_run: "sqlite3_snapshot_open db zSchema pSnapshot w = (Returned SQLITE_ERROR, w)"
  unfolding sqlite3_snapshot_open_def by (simp add: seq_discard ret_def)

lemma get_run: "sqlite3_snapshot_get db zSchema ppSnapshot w = (Returned SQLITE_ERROR, w)"
  unfolding sqlite3_snapshot_get_def by (simp add: seq_discard ret_def)

lemma free_run: "sqlite3_snapshot_free pSnapshot w = (Returned (), w)"
  unfolding sqlite3_snapshot_free_def by (simp add: discard_def)

lemma cmp_run: "sqlite3_snapshot_cmp p1 p2 w = (Returned SQLITE_ERROR, w)"
  unfolding sqlite3_snapshot_cmp_def by (simp add: seq_discard ret_def)

text \<open>
  C1. For every connection handle, schema name and output slot, open-snapshot and
  get-snapshot return \<^verbatim>\<open>SQLITE_ERROR\<close> and leave the caller's output parameter as it
  was: the memory after the call is the memory before it, in particular at the
  address the output pointer holds.
\<close>

theorem open_get_error_output_unchanged:
  "fst (sqlite3_snapshot_open db zSchema pSnapshot w) = Returned SQLITE_ERROR
   \<and> heap (snd (sqlite3_snapshot_open db zSchema pSnapshot w)) = heap w
   \<and> heap (snd (sqlite3_snapshot_open db zSchema (Addr a) w)) a = heap w a
   \<and> fst (sqlite3_snapshot_get db zSchema ppSnapshot w) = Returned SQLITE_ERROR
   \<and> heap (snd (sqlite3_snapshot_get db zSchema ppSnapshot w)) = heap w
   \<and> heap (snd (sqlite3_snapshot_get db zSchema (Addr a) w)) a = heap w a"
  by (simp add: open_run get_run)

text \<open>
  C3. For every pair of snapshot handles, null handles and handles that point
  nowhere among them, compare-snapshots returns \<^verbatim>\<open>SQLITE_ERROR\<close>.
\<close>

theorem cmp_returns_error:
  "fst (sqlite3_snapshot_cmp p1 p2 w) = Returned SQLITE_ERROR
   \<and> fst (sqlite3_snapshot_cmp Null Null w) = Returned SQLITE_ERROR
   \<and> fst (sqlite3_snapshot_cmp (Addr a) Null (w\<lparr>heap := Map.empty\<rparr>)) = Returned SQLITE_ERROR"
  by (simp add: cmp_run)

section \<open>Running the fatal handler\<close>

declare dec_nat.simps [simp del] hex_nat.simps [simp del]

text \<open>
  The digits written are those of the number: read back in base ten (sixteen),
  they give it again.
\<close>

lemma dec_nat_value: "foldl (\<lambda>a c. 10 * a + (of_char c - 48)) 0 (dec_nat n) = n"
proof (induction n rule: dec_nat.induct)
  case (1 n)
  show ?case
  proof (cases "n < 10")
    case True
    then show ?thesis by (subst dec_nat.simps) simp
  next
    case False
    then have "foldl (\<lambda>a c. 10 * a + (of_char c - 48)) 0 (dec_nat (n div 10)) = n div 10"
      using 1 by simp
    with False show ?thesis
      by (subst dec_nat.simps) simp
  qed
qed

lemma hex_nat_value:
  "foldl (\<lambda>a c. 16 * a + (if of_char c < (58 :: nat) then of_char c - 48 else of_char c - 87))
     0 (hex_nat n) = n"
proof (induction n rule: hex_nat.induct)
  case (1 n)
  show ?case
  proof (cases "n < 16")
    case True
    then show ?thesis by (subst hex_nat.simps) (simp add: hex_digit_def)
  next
    case False
    then have "foldl (\<lambda>a c. 16 * a + (if of_char c < (58 :: nat) then of_char c - 48 else of_char c - 87))
                 0 (hex_nat (n div 16)) = n div 16"
      using 1 by simp
    moreover have "n mod 16 < 16" by simp
    ultimately show ?thesis using False
      by (subst hex_nat.simps) (simp add: hex_digit_def)
  qed
qed

text \<open>Text without \<^verbatim>\<open>%\<close> and without NUL is copied, and formatting goes on after it.\<close>

lemma emit_emit: "emit a (emit b r) = emit (a @ b) r"
  by (cases r) simp_all

lemma printf_format_append:
  "NUL \<notin> set lit \<Longrightarrow> CHR ''%'' \<notin> set lit \<Longrightarrow>
   printf_format libc (lit @ fmt) args = emit lit (printf_format libc fmt args)"
proof (induction lit)
  case Nil
  show ?case by (cases "printf_format libc fmt args") simp_all
next
  case (Cons c lit)
  then show ?case by (auto simp: emit_emit)
qed

lemma printf_format_literal:
  "NUL \<notin> set s \<Longrightarrow> CHR ''%'' \<notin> set s \<Longrightarrow> printf_format libc s args = Defined s"
  using printf_format_append [of s libc "[]" args] by simp

text \<open>Whatever \<open>conversion\<close> does not cover is the library's to format.\<close>

lemma printf_format_libc:
  "conversion d args = None \<Longrightarrow>
   printf_format libc (CHR ''%'' # d # fmt) args = libc (CHR ''%'' # d # fmt) args"
  by (simp add: NUL_def)

lemma fprintf_prefix:
  "fprintf libc stream ''SwiftThreading fatal: '' [] w =
     (Returned 22,
      w\<lparr>written := (written w)(stream := written w stream @ ''SwiftThreading fatal: '')\<rparr>)"
  by (simp add: fprintf_def vfprintf_def printf_format_literal NUL_def)

lemma fprintf_newline:
  "fprintf libc stream ''\<newline>'' [] w =
     (Returned 1, w\<lparr>written := (written w)(stream := written w stream @ ''\<newline>'')\<rparr>)"
  by (simp add: fprintf_def vfprintf_def printf_format_literal NUL_def)

text \<open>
  The two ways a call of the handler can go, by what the C library makes of the
  caller's format and arguments.
\<close>

lemma fatal_defined:
  "printf_format libc message args = Defined s \<Longrightarrow> fatal libc message args w = fatal_report w s"
  by (simp add: fatal_def seq_def fprintf_prefix fprintf_newline vfprintf_def abort_def)

lemma fatal_undefined:
  "printf_format libc message args = Undefined_behaviour \<Longrightarrow>
   fst (fatal libc message args w) = Undefined"
  by (simp add: fatal_def seq_def fprintf_prefix vfprintf_def)

lemma fatal_never_returns: "fst (fatal libc message args w) \<noteq> Returned u"
  by (cases "printf_format libc message args") (simp_all add: fatal_defined fatal_undefined)

text \<open>A message without conversion specifications is printed as it is, whatever the arguments.\<close>

lemma fatal_literal:
  assumes "NUL \<notin> set message" and "CHR ''%'' \<notin> set message"
  shows "fatal libc message args w = fatal_report w message"
  using assms by (simp add: fatal_defined printf_format_literal)

text \<open>
  A specification outside \<open>conversion\<close>, here one with a width: the handler prints
  what the library makes of it, and aborts.
\<close>

lemma fatal_beyond_conversion:
  assumes "NUL \<notin> set lit" and "CHR ''%'' \<notin> set lit"
    and "conversion d args = None"
    and "libc (CHR ''%'' # d # fmt) args = Defined s"
  shows "fatal libc (lit @ CHR ''%'' # d # fmt) args w = fatal_report w (lit @ s)"
proof -
  have "printf_format libc (lit @ CHR ''%'' # d # fmt) args = Defined (lit @ s)"
    using assms by (simp add: printf_format_append printf_format_libc del: printf_format.simps)
  then show ?thesis
    by (rule fatal_defined)
qed

lemma fatal_width:
  assumes "libc ''%5d'' [CInt 42] = Defined ''   42''"
  shows "fatal libc ''state %5d'' [CInt 42] w = fatal_report w ''state    42''"
proof -
  have "conversion CHR ''5'' [CInt 42] = None"
    by (simp add: conversion_def)
  from fatal_beyond_conversion [of "''state ''" "CHR ''5''" "[CInt 42]" libc "''d''" "''   42''" w,
      OF _ _ this]
  show ?thesis
    using assms by (simp add: NUL_def)
qed

text \<open>
  A fragment specification that needs an argument and finds none: the behaviour is
  undefined whatever the rest of the library is.
\<close>

lemma fatal_missing_argument:
  assumes "NUL \<notin> set lit" and "CHR ''%'' \<notin> set lit"
    and "conversion d [] = Some Undefined_behaviour"
  shows "fst (fatal libc (lit @ CHR ''%'' # d # fmt) [] w) = Undefined"
proof -
  have "printf_format libc (lit @ CHR ''%'' # d # fmt) [] = Undefined_behaviour"
    using assms by (simp add: printf_format_append NUL_def)
  then show ?thesis
    by (rule fatal_undefined)
qed

text \<open>
  C2, as amended. For every format string and argument list on which the
  behaviour of \<^verbatim>\<open>vfprintf\<close> is defined, whatever C library \<open>libc\<close> the handler runs
  against, the handler appends to the error stream the fixed prefix, then the
  formatted message \<open>s\<close>, then a newline, changes nothing else, and ends the
  process: it does not return.
\<close>

theorem fatal_writes_then_aborts:
  assumes "printf_format libc message args = Defined s"
  shows "fatal libc message args w =
           (Aborted,
            w\<lparr>written := (written w)
                 (stderr := written w stderr @ ''SwiftThreading fatal: '' @ s @ ''\<newline>'')\<rparr>)"
  using assms by (rule fatal_defined)

theorem fatal_writes_then_aborts_witness:
  "printf_format unextended ''lock %s failed: %d'' [CStr ''mutex'', CInt (- 3)]
     = Defined ''lock mutex failed: -3''
   \<and> fst (fatal unextended ''lock %s failed: %d'' [CStr ''mutex'', CInt (- 3)] idle_process)
     = Aborted
   \<and> written (snd (fatal unextended ''lock %s failed: %d'' [CStr ''mutex'', CInt (- 3)]
                     idle_process)) stderr
     = ''SwiftThreading fatal: lock mutex failed: -3\<newline>''"
proof -
  have f: "printf_format unextended ''lock %s failed: %d'' [CStr ''mutex'', CInt (- 3)]
             = Defined ''lock mutex failed: -3''"
    by code_simp
  show ?thesis
    using f fatal_writes_then_aborts [OF f, of idle_process]
    by (simp add: idle_process_def)
qed

text \<open>
  C2 as it is stated, for every format string and argument list, fails: the call
  \<^verbatim>\<open>fatal("%s")\<close> passes no argument for its conversion specification, so the
  behaviour of \<^verbatim>\<open>vfprintf\<close> is undefined (C standard, 7.21.6.1 paragraph 2). The
  run may fault inside the library before the newline, or print some bytes and go
  on; it is not bound to be the run the claim describes.
\<close>

theorem fatal_missing_argument_counterexample:
  "fst (fatal unextended ''%s'' [] idle_process) = Undefined"
proof -
  have "conversion CHR ''s'' [] = Some Undefined_behaviour"
    by (simp add: conversion_def)
  from fatal_missing_argument [of "[]" "CHR ''s''" unextended "[]" idle_process, OF _ _ this]
  show ?thesis
    by simp
qed

text \<open>
  C4. For every snapshot handle, the null handle and the handle a caller is left
  with after a failed get-snapshot among them, free-snapshot returns and leaves
  the whole state of the process as it was.
\<close>

theorem free_is_noop:
  "sqlite3_snapshot_free pSnapshot w = (Returned (), w)
   \<and> sqlite3_snapshot_free Null w = (Returned (), w)
   \<and> seq (sqlite3_snapshot_get db zSchema ppSnapshot) (sqlite3_snapshot_free pSnapshot) w
     = (Returned (), w)"
  by (simp add: free_run seq_def get_run)

text \<open>
  C5. The handler substitutes its arguments, however many and of whatever types,
  as the C library's formatted output does. After any text \<open>lit\<close> that is copied,
  \<^verbatim>\<open>%d\<close> and \<^verbatim>\<open>%i\<close> take the next argument and print it in decimal with its sign,
  \<^verbatim>\<open>%u\<close> in decimal and \<^verbatim>\<open>%x\<close> in hexadecimal without sign, \<^verbatim>\<open>%c\<close> as the character
  with that code, \<^verbatim>\<open>%s\<close> as the bytes of the string up to its terminator, \<^verbatim>\<open>%%\<close>
  prints a percent sign and takes no argument; the rest \<open>fmt\<close> of the format is
  then filled in from the arguments that are left. On the format
  \<^verbatim>\<open>"bad state %d"\<close> and the argument 42 the handler appends exactly
  \<^verbatim>\<open>"SwiftThreading fatal: bad state 42\n"\<close> to the error stream and aborts, and a
  format with a string, a negative and an unsigned number, a character and a
  hexadecimal number is filled in accordingly.
\<close>

theorem fatal_substitutes_arguments:
  assumes "NUL \<notin> set lit" and "CHR ''%'' \<notin> set lit"
    and "printf_format libc fmt args = Defined t"
  shows
    "fatal libc (lit @ fmt) args w = fatal_report w (lit @ t)
     \<and> fatal libc (lit @ ''%d'' @ fmt) (CInt n # args) w
         = fatal_report w (lit @ dec_int (sint n) @ t)
     \<and> fatal libc (lit @ ''%i'' @ fmt) (CInt n # args) w
         = fatal_report w (lit @ dec_int (sint n) @ t)
     \<and> fatal libc (lit @ ''%u'' @ fmt) (CInt n # args) w
         = fatal_report w (lit @ dec_nat (unat n) @ t)
     \<and> fatal libc (lit @ ''%x'' @ fmt) (CInt n # args) w
         = fatal_report w (lit @ hex_nat (unat n) @ t)
     \<and> fatal libc (lit @ ''%c'' @ fmt) (CInt n # args) w
         = fatal_report w (lit @ [char_of (unat n)] @ t)
     \<and> fatal libc (lit @ ''%s'' @ fmt) (CStr s # args) w
         = fatal_report w (lit @ c_str s @ t)
     \<and> fatal libc (lit @ ''%%'' @ fmt) args w = fatal_report w (lit @ ''%'' @ t)
     \<and> fatal libc ''bad state %d'' [CInt 42] w =
         (Aborted,
          w\<lparr>written := (written w)
               (stderr := written w stderr @ ''SwiftThreading fatal: bad state 42\<newline>'')\<rparr>)
     \<and> fatal libc ''%s: %d of %u (%c) 0x%x 100%%''
           [CStr (''lock'' @ NUL # ''ed''), CInt (- 7), CInt 30, CInt 33, CInt 255] w =
         (Aborted,
          w\<lparr>written := (written w)
               (stderr := written w stderr
                  @ ''SwiftThreading fatal: lock: -7 of 30 (!) 0xff 100%\<newline>'')\<rparr>)"
proof -
  note lit = assms(1,2) and rest = assms(3)
  have copy: "printf_format libc (lit @ fmt) args = Defined (lit @ t)"
    using lit rest by (simp add: printf_format_append)
  have d: "printf_format libc (lit @ ''%d'' @ fmt) (CInt n # args)
             = Defined (lit @ dec_int (sint n) @ t)"
    using lit rest by (simp add: printf_format_append conversion_def NUL_def)
  have i: "printf_format libc (lit @ ''%i'' @ fmt) (CInt n # args)
             = Defined (lit @ dec_int (sint n) @ t)"
    using lit rest by (simp add: printf_format_append conversion_def NUL_def)
  have u: "printf_format libc (lit @ ''%u'' @ fmt) (CInt n # args)
             = Defined (lit @ dec_nat (unat n) @ t)"
    using lit rest by (simp add: printf_format_append conversion_def NUL_def)
  have x: "printf_format libc (lit @ ''%x'' @ fmt) (CInt n # args)
             = Defined (lit @ hex_nat (unat n) @ t)"
    using lit rest by (simp add: printf_format_append conversion_def NUL_def)
  have c: "printf_format libc (lit @ ''%c'' @ fmt) (CInt n # args)
             = Defined (lit @ [char_of (unat n)] @ t)"
    using lit rest by (simp add: printf_format_append conversion_def NUL_def)
  have s: "printf_format libc (lit @ ''%s'' @ fmt) (CStr s # args)
             = Defined (lit @ c_str s @ t)"
    using lit rest by (simp add: printf_format_append conversion_def NUL_def)
  have p: "printf_format libc (lit @ ''%%'' @ fmt) args = Defined (lit @ ''%'' @ t)"
    using lit rest by (simp add: printf_format_append conversion_def NUL_def)
  have one: "printf_format libc ''bad state %d'' [CInt 42] = Defined ''bad state 42''"
    by code_simp
  have mixed: "printf_format libc ''%s: %d of %u (%c) 0x%x 100%%''
                 [CStr (''lock'' @ NUL # ''ed''), CInt (- 7), CInt 30, CInt 33, CInt 255]
               = Defined ''lock: -7 of 30 (!) 0xff 100%''"
    by code_simp
  have scenario: "fatal libc ''bad state %d'' [CInt 42] w =
         (Aborted,
          w\<lparr>written := (written w)
               (stderr := written w stderr @ ''SwiftThreading fatal: bad state 42\<newline>'')\<rparr>)"
    using fatal_defined [OF one, of w] by simp
  have several: "fatal libc ''%s: %d of %u (%c) 0x%x 100%%''
           [CStr (''lock'' @ NUL # ''ed''), CInt (- 7), CInt 30, CInt 33, CInt 255] w =
         (Aborted,
          w\<lparr>written := (written w)
               (stderr := written w stderr
                  @ ''SwiftThreading fatal: lock: -7 of 30 (!) 0xff 100%\<newline>'')\<rparr>)"
    using fatal_defined [OF mixed, of w] by simp
  show ?thesis
    using fatal_defined [OF copy] fatal_defined [OF d] fatal_defined [OF i]
      fatal_defined [OF u] fatal_defined [OF x] fatal_defined [OF c] fatal_defined [OF s]
      fatal_defined [OF p] scenario several
    by (intro conjI)
qed

theorem fatal_substitutes_arguments_witness:
  "NUL \<notin> set ''held by '' \<and> CHR ''%'' \<notin> set ''held by ''
   \<and> printf_format unextended '' (%d)'' [CInt 3] = Defined '' (3)''
   \<and> fatal unextended ''held by %s (%d)'' [CStr ''reader'', CInt 3] idle_process
     = fatal_report idle_process ''held by reader (3)''
   \<and> fatal unextended ''held by %x (%d)'' [CInt 171, CInt 3] idle_process
     = fatal_report idle_process ''held by ab (3)''"
proof -
  have lit: "NUL \<notin> set ''held by ''" "CHR ''%'' \<notin> set ''held by ''"
    by (simp_all add: NUL_def)
  have rest: "printf_format unextended '' (%d)'' [CInt 3] = Defined '' (3)''"
    by code_simp
  have str: "c_str ''reader'' = ''reader''"
    by code_simp
  have hex: "hex_nat (unat (171 :: 32 word)) = ''ab''"
    by code_simp
  note laws = fatal_substitutes_arguments [OF lit rest, of idle_process 171 "''reader''"]
  have "fatal unextended (''held by '' @ ''%s'' @ '' (%d)'') [CStr ''reader'', CInt 3] idle_process
          = fatal_report idle_process (''held by '' @ c_str ''reader'' @ '' (3)'')"
    by (rule laws [THEN conjunct2, THEN conjunct2, THEN conjunct2, THEN conjunct2,
          THEN conjunct2, THEN conjunct2, THEN conjunct1])
  then have string: "fatal unextended ''held by %s (%d)'' [CStr ''reader'', CInt 3] idle_process
          = fatal_report idle_process ''held by reader (3)''"
    by (simp add: str)
  have "fatal unextended (''held by '' @ ''%x'' @ '' (%d)'') [CInt 171, CInt 3] idle_process
          = fatal_report idle_process (''held by '' @ hex_nat (unat (171 :: 32 word)) @ '' (3)'')"
    by (rule laws [THEN conjunct2, THEN conjunct2, THEN conjunct2, THEN conjunct2,
          THEN conjunct1])
  then have number: "fatal unextended ''held by %x (%d)'' [CInt 171, CInt 3] idle_process
          = fatal_report idle_process ''held by ab (3)''"
    by (simp only: hex) simp
  from lit rest string number show ?thesis
    by (intro conjI)
qed


text \<open>
  C7. Open-snapshot writes to no stream and maps no memory; get-snapshot maps no
  memory and stores nothing, so the output handle is neither allocated nor filled
  in. Each leaves the state it was called in: the returned status is its only
  effect.
\<close>

theorem open_get_no_effect:
  "written (snd (sqlite3_snapshot_open db zSchema pSnapshot w)) = written w
   \<and> dom (heap (snd (sqlite3_snapshot_open db zSchema pSnapshot w))) = dom (heap w)
   \<and> snd (sqlite3_snapshot_open db zSchema pSnapshot w) = w
   \<and> dom (heap (snd (sqlite3_snapshot_get db zSchema ppSnapshot w))) = dom (heap w)
   \<and> heap (snd (sqlite3_snapshot_get db zSchema ppSnapshot w)) = heap w
   \<and> snd (sqlite3_snapshot_get db zSchema ppSnapshot w) = w"
  by (simp add: open_run get_run)

section \<open>Call histories\<close>

lemma invoke_state: "snd (invoke c w) = w"
  by (cases c) (simp_all add: open_run get_run free_run cmp_run)

lemma invoke_result: "fst (invoke c w) = fst (invoke c w')"
  by (cases c) (simp_all add: open_run get_run free_run cmp_run)

lemma run_history_state: "run_history h w = w"
  by (induction h arbitrary: w) (simp_all add: invoke_state)

text \<open>
  C8. Each stub is stateless and deterministic: a call gives the same result after
  any two call histories, run from any two states of the process, so the result
  reads nothing that a call could have changed; and neither one call nor a whole
  history changes the state.
\<close>

theorem stubs_stateless:
  "fst (invoke c (run_history h1 w1)) = fst (invoke c (run_history h2 w2))
   \<and> snd (invoke c w) = w
   \<and> run_history h w = w"
proof -
  have "fst (invoke c (run_history h1 w1)) = fst (invoke c (run_history h2 w2))"
    by (rule invoke_result)
  then show ?thesis
    by (simp add: invoke_state run_history_state)
qed

text \<open>
  C9. No stub reads or writes through a pointer it is given. For all pointer
  values, null or an address, mapped or not, and for every content \<open>h\<close> of the
  memory (the empty one, where every address dangles, among them), each stub
  returns, its result is the one it gives in any other memory, and the memory
  after the call is the memory before it.
\<close>

theorem stubs_never_dereference:
  "sqlite3_snapshot_open db zSchema pSnapshot (w\<lparr>heap := h\<rparr>)
     = (Returned SQLITE_ERROR, w\<lparr>heap := h\<rparr>)
   \<and> sqlite3_snapshot_get db zSchema ppSnapshot (w\<lparr>heap := h\<rparr>)
     = (Returned SQLITE_ERROR, w\<lparr>heap := h\<rparr>)
   \<and> sqlite3_snapshot_free pSnapshot (w\<lparr>heap := h\<rparr>) = (Returned (), w\<lparr>heap := h\<rparr>)
   \<and> sqlite3_snapshot_cmp p1 p2 (w\<lparr>heap := h\<rparr>)
     = (Returned SQLITE_ERROR, w\<lparr>heap := h\<rparr>)
   \<and> fst (sqlite3_snapshot_open Null Null Null (w\<lparr>heap := Map.empty\<rparr>)) \<noteq> Undefined
   \<and> fst (sqlite3_snapshot_get (Addr a) (Addr b) (Addr c) (w\<lparr>heap := Map.empty\<rparr>))
     \<noteq> Undefined
   \<and> fst (sqlite3_snapshot_free (Addr a) (w\<lparr>heap := Map.empty\<rparr>)) \<noteq> Undefined
   \<and> fst (sqlite3_snapshot_cmp (Addr a) Null (w\<lparr>heap := Map.empty\<rparr>)) \<noteq> Undefined"
  by (simp add: open_run get_run free_run cmp_run)

text \<open>
  C10. Every call of a stub returns to its caller, for all arguments and in every
  state; none ends the process. The fatal handler is the opposite: no call of it
  returns.
\<close>

theorem stubs_return_normally:
  "fst (sqlite3_snapshot_open db zSchema pSnapshot w) = Returned SQLITE_ERROR
   \<and> fst (sqlite3_snapshot_get db zSchema ppSnapshot w) = Returned SQLITE_ERROR
   \<and> fst (sqlite3_snapshot_free pSnapshot w) = Returned ()
   \<and> fst (sqlite3_snapshot_cmp p1 p2 w) = Returned SQLITE_ERROR
   \<and> fst (invoke c w) \<noteq> Aborted
   \<and> fst (fatal libc message args w) \<noteq> Returned ()"
proof -
  have "fst (invoke c w) \<noteq> Aborted"
    by (cases c) (simp_all add: open_run get_run free_run cmp_run)
  then show ?thesis
    by (simp add: open_run get_run free_run cmp_run fatal_never_returns)
qed

end
